theory Spec2Isabelle
  imports Complex_Main "HOL-Library.Sublist"
begin

section \<open>JavaScript values as the scripts use them\<close>

text \<open>
  The three client scripts read fields of records delivered by the server and fall back on
  a default with \<^verbatim>\<open>x || d\<close>. A field that is absent reads as \<^verbatim>\<open>undefined\<close>;
  here it is \<open>None\<close>. The operator \<^verbatim>\<open>||\<close> yields its right operand whenever the
  left one is falsy: absent, the number \<open>0\<close> or the empty string.
  Numbers are integers where the payload counts, rationals where it gives a percentage.
\<close>

definition num_or :: "'a::zero option \<Rightarrow> 'a \<Rightarrow> 'a" where
  "num_or v d = (case v of None \<Rightarrow> d | Some n \<Rightarrow> if n = 0 then d else n)"

definition str_or :: "string option \<Rightarrow> string \<Rightarrow> string" where
  "str_or v d = (case v of None \<Rightarrow> d | Some s \<Rightarrow> if s = [] then d else s)"

subsection \<open>Numbers\<close>

text \<open>
  JavaScript numbers are IEEE 754 doubles. The counts of a progress payload are integers;
  the quotient \<^verbatim>\<open>progress / total\<close> and its product with \<open>100\<close> are rounded to the
  nearest double, ties to even. \<open>fl\<close> is that rounding on the rationals in the normal
  range of the doubles (53 significant bits); it has no overflow and no subnormal numbers,
  so it is the arithmetic of the code only where the operands keep the results in that
  range, as safe integers do (below). \<open>binade x\<close> is the exponent \<open>e\<close> with
  \<open>2 ^ e \<le> x < 2 ^ (e + 1)\<close>.
\<close>

function ilog2 :: "int \<Rightarrow> int" where
  "ilog2 n = (if n < 2 then 0 else 1 + ilog2 (n div 2))"
  by pat_completeness auto
termination
  by (relation "measure nat") auto

declare ilog2.simps [simp del]

definition pow2 :: "int \<Rightarrow> rat" where
  "pow2 k = (if 0 \<le> k then 2 ^ nat k else 1 / 2 ^ nat (- k))"

definition binade :: "rat \<Rightarrow> int" where
  "binade x = (let (a, b) = quotient_of x; k = ilog2 a - ilog2 b
               in if pow2 k \<le> x then k else k - 1)"

definition round_half_even :: "rat \<Rightarrow> int" where
  "round_half_even m =
     (let f = \<lfloor>m\<rfloor>; r = m - of_int f
      in if r < 1 / 2 then f else if 1 / 2 < r then f + 1 else if even f then f else f + 1)"

definition fl :: "rat \<Rightarrow> rat" where
  "fl x = (if x = 0 then 0
           else let u = pow2 (binade \<bar>x\<bar> - 52)
                in sgn x * of_int (round_half_even (\<bar>x\<bar> / u)) * u)"

definition js_div :: "rat \<Rightarrow> rat \<Rightarrow> rat" where
  "js_div a b = fl (a / b)"

definition js_mul :: "rat \<Rightarrow> rat \<Rightarrow> rat" where
  "js_mul a b = fl (a * b)"

text \<open>\<^verbatim>\<open>Math.round\<close>: the nearest integer, a tie going up.\<close>

definition Math_round :: "rat \<Rightarrow> int" where
  "Math_round x = \<lfloor>x + 1 / 2\<rfloor>"

subsection \<open>Strings and what the runtime provides\<close>

text \<open>
  Strings are byte lists. Three functions of the listener come from outside the scripts
  and are taken as they are, whatever they compute: \<^verbatim>\<open>frappe.utils.escape_html\<close> of
  the framework, \<^verbatim>\<open>String.prototype.toUpperCase\<close>, and the conversion of a number to
  a string that a template literal applies to an interpolated number (\<open>num_str\<close>; its
  argument is the integer value of the number).
\<close>

record runtime =
  escape_html :: "string \<Rightarrow> string"
  toUpperCase :: "string \<Rightarrow> string"
  num_str :: "int \<Rightarrow> string"

text \<open>
  \<^verbatim>\<open>Number.isSafeInteger\<close>: the integers a double holds exactly, up to
  \<open>2 ^ 53 - 1\<close> in magnitude. For counts in this range the quotient and the product of
  the percentage stay in the normal range of the doubles, where \<open>fl\<close> is their rounding.
\<close>

definition safe_integer :: "int \<Rightarrow> bool" where
  "safe_integer n = (\<bar>n\<bar> \<le> 9007199254740991)"

text \<open>
  For the examples: the decimal digits of an integer, which is what the conversion gives
  for a safe integer, and upper case on strings of ASCII characters.
\<close>

function digits :: "int \<Rightarrow> string" where
  "digits n = (if n < 10 then [char_of (48 + n)]
               else digits (n div 10) @ [char_of (48 + n mod 10)])"
  by pat_completeness auto
termination
  by (relation "measure nat") auto

declare digits.simps [simp del]

definition decimal :: "int \<Rightarrow> string" where
  "decimal i = (if i < 0 then CHR ''-'' # digits (- i) else digits i)"

definition upper_char :: "char \<Rightarrow> char" where
  "upper_char c = (let n = (of_char c :: nat)
                   in if 97 \<le> n \<and> n \<le> 122 then char_of (n - 32) else c)"

definition ascii_upper :: "string \<Rightarrow> string" where
  "ascii_upper s = map upper_char s"

text \<open>\<^verbatim>\<open>Array.prototype.join\<close>.\<close>

fun join :: "string \<Rightarrow> string list \<Rightarrow> string" where
  "join sep [] = []"
| "join sep [x] = x"
| "join sep (x # y # ys) = x @ sep @ join sep (y # ys)"

subsection \<open>Remote calls\<close>

text \<open>
  \<^verbatim>\<open>frappe.call\<close> sends a request and returns at once; the model records the request.
  \<open>freeze\<close> is \<open>False\<close> where the source leaves it out.
\<close>

record remote_call =
  "method" :: string
  args :: "(string \<times> string) list"
  freeze :: bool

section \<open>The Batch Update Price dialog of the Item list view\<close>

text \<open>
  The payload published on the realtime channel \<^verbatim>\<open>shopify_price_batch\<close>: two counts,
  the current item, a status label, a result classification and a message, each of which
  may be absent.
\<close>

record progress_event =
  total :: "int option"
  progress :: "int option"
  current :: "string option"
  status :: "string option"
  result :: "string option"
  message :: "string option"

text \<open>
  What the click handler of the button creates: the dialog \<open>d\<close> with the value of its
  \<open>csv\<close> field and the successive contents written to the wrapper of its
  \<open>progress_html\<close> field (the latest last), the array \<open>messages\<close>, whether
  \<open>handler\<close> is registered on the realtime channel, and the requests sent so far.
\<close>

record dialog =
  csv :: "string option"
  progress_html :: "string list"
  messages :: "string list"
  listening :: bool
  calls :: "remote_call list"

text \<open>After \<^verbatim>\<open>d.show()\<close> and \<^verbatim>\<open>frappe.realtime.on('shopify_price_batch', handler)\<close>.\<close>

definition opened :: dialog where
  "opened = \<lparr>csv = None, progress_html = [], messages = [], listening = True, calls = []\<rparr>"

definition batch_update_prices_from_csv :: string where
  "batch_update_prices_from_csv =
     ''ecommerce_integrations.shopify.product.batch_update_prices_from_csv''"

text \<open>
  The Start button: \<^verbatim>\<open>d.get_value('csv')\<close> is the \<open>csv\<close> field; a falsy value returns
  before any request. The callback of the request shows a notice and touches nothing
  else; it is left out.
\<close>

definition primary_action :: "dialog \<Rightarrow> dialog" where
  "primary_action d =
     (case csv d of
        None \<Rightarrow> d
      | Some csv' \<Rightarrow>
          if csv' = [] then d
          else d\<lparr>calls := calls d
                 @ [\<lparr>method = batch_update_prices_from_csv,
                      args = [(''csv'', csv')],
                      freeze = True\<rparr>]\<rparr>)"

text \<open>
  \<^verbatim>\<open>total ? Math.round((progress / total) * 100) : 0\<close>, on the integer values of
  the two numbers. It is the percentage of the code where both are safe integers; beyond
  them the payload's numbers are not the integers written in it, and the theorems that
  give the percentage say nothing.
\<close>

definition percentage :: "int \<Rightarrow> int \<Rightarrow> int" where
  "percentage total' progress' =
     (if total' \<noteq> 0
      then Math_round (js_mul (js_div (of_int progress') (of_int total')) 100)
      else 0)"

text \<open>
  The template literal of the listener, cut at its interpolations, with its long fixed
  stretches named. The dash of the source is the character U+2014, here its three bytes
  in UTF-8.
\<close>

definition em_dash :: string where
  "em_dash = [CHR 0xE2, CHR 0x80, CHR 0x94]"

definition html_head :: string where
  \<open>html_head = ''\<newline>+                    <div style="margin: 10px 0;">\<newline>+                        <div><strong>''\<close>

definition html_bar :: string where
  \<open>html_bar = ''</div>\<newline>+                        <div style="background:#f1f1f1;border-radius:3px;height:10px;width:100%;margin-top:6px;">\<newline>+                            <div style="''\<close>

definition html_list :: string where
  \<open>html_list = '';background:#5b8ef8;height:100%;border-radius:3px"></div>\<newline>+                        </div>\<newline>+                        <div style="margin-top:8px;max-height:200px;overflow:auto;padding:6px;background:#fff;border:1px solid #eee;border-radius:4px">''\<close>

definition html_tail :: string where
  \<open>html_tail = ''</div>\<newline>+                    </div>''\<close>

definition html_before_messages ::
  "runtime \<Rightarrow> int \<Rightarrow> int \<Rightarrow> string \<Rightarrow> string \<Rightarrow> int \<Rightarrow> string" where
  "html_before_messages js progress' total' current' status' pct =
     html_head @ num_str js progress' @ ''/'' @ num_str js total' @ ''</strong> '' @ em_dash @ '' ''
     @ escape_html js current' @ '' '' @ em_dash @ '' '' @ status'
     @ html_bar @ ''width:'' @ num_str js pct @ ''%'' @ html_list"

definition html ::
  "runtime \<Rightarrow> int \<Rightarrow> int \<Rightarrow> string \<Rightarrow> string \<Rightarrow> int \<Rightarrow> string list \<Rightarrow> string" where
  "html js progress' total' current' status' pct msgs =
     html_before_messages js progress' total' current' status' pct
     @ join ''<br>'' msgs @ html_tail"

text \<open>
  The listener, in the runtime \<open>js\<close>. A falsy payload (\<open>None\<close>) returns at once.
\<close>

definition handler :: "runtime \<Rightarrow> progress_event option \<Rightarrow> dialog \<Rightarrow> dialog" where
  "handler js data d =
     (case data of
        None \<Rightarrow> d
      | Some ev \<Rightarrow>
          (let total' = num_or (total ev) 0;
               progress' = num_or (progress ev) 0;
               current' = str_or (current ev) [];
               status' = str_or (status ev) [];
               result' = str_or (result ev) [];
               message' = str_or (message ev) [];
               msgs = (if message' \<noteq> []
                       then messages d @ [toUpperCase js result' @ '': '' @ escape_html js message']
                       else messages d);
               pct = percentage total' progress';
               d' = d\<lparr>messages := msgs,
                      progress_html := progress_html d
                        @ [html js progress' total' current' status' pct msgs]\<rparr>
           in if status' = ''done'' \<or> total' \<le> progress'
              then d'\<lparr>listening := False\<rparr>
              else d'))"

text \<open>\<^verbatim>\<open>d.onhide\<close>: closing the dialog removes the listener.\<close>

definition onhide :: "dialog \<Rightarrow> dialog" where
  "onhide d = d\<lparr>listening := False\<rparr>"

text \<open>
  What can happen to an open dialog: the channel delivers a payload, which reaches
  \<open>handler\<close> only while it is registered; the user edits the \<open>csv\<close> field, presses
  Start, or closes the dialog.
\<close>

datatype ui_event =
    Publish "progress_event option"
  | Edit "string option"
  | Start
  | Hide

fun step :: "runtime \<Rightarrow> dialog \<Rightarrow> ui_event \<Rightarrow> dialog" where
  "step js d (Publish data) = (if listening d then handler js data d else d)"
| "step js d (Edit v) = d\<lparr>csv := v\<rparr>"
| "step js d Start = primary_action d"
| "step js d Hide = onhide d"

definition run :: "runtime \<Rightarrow> dialog \<Rightarrow> ui_event list \<Rightarrow> dialog" where
  "run js d es = foldl (step js) d es"

section \<open>The Sales Order form script\<close>

text \<open>
  The two fields of \<^verbatim>\<open>frm.doc\<close> the script touches; \<^verbatim>\<open>frm.set_value\<close> is the
  update of the field.
\<close>

record sales_order =
  shopify_coupon_code :: "string option"
  additional_discount_percentage :: rat

text \<open>
  \<^verbatim>\<open>r.message\<close> of the lookup's response: \<open>None\<close> when it is falsy, else the payload,
  whose \<open>percent_value\<close> may be absent.
\<close>

record percent_message =
  percent_value :: "rat option"

definition get_shopify_coupon_code_percent_value :: string where
  "get_shopify_coupon_code_percent_value =
     ''ecommerce_integrations.shopify.coupon.get_shopify_coupon_code_percent_value''"

text \<open>
  The handler of a change of \<open>shopify_coupon_code\<close>: the form after it and the requests
  it sent.
\<close>

definition on_shopify_coupon_code :: "sales_order \<Rightarrow> sales_order \<times> remote_call list" where
  "on_shopify_coupon_code frm =
     (let code = str_or (shopify_coupon_code frm) []
      in if code \<noteq> []
         then (frm, [\<lparr>method = get_shopify_coupon_code_percent_value,
                       args = [(''coupon_code'', code)],
                       freeze = False\<rparr>])
         else (frm\<lparr>additional_discount_percentage := 0\<rparr>, []))"

text \<open>The callback of that request, run when its response arrives.\<close>

definition percent_value_callback :: "percent_message option \<Rightarrow> sales_order \<Rightarrow> sales_order" where
  "percent_value_callback r_message frm =
     (case r_message of
        None \<Rightarrow> frm
      | Some m \<Rightarrow> frm\<lparr>additional_discount_percentage := num_or (percent_value m) 0\<rparr>)"

section \<open>The Shopify Coupon Code form script\<close>

text \<open>
  \<^verbatim>\<open>r.message\<close> of the response to Update Coupon, \<open>None\<close> when it is falsy; its
  fields \<^verbatim>\<open>status\<close> and \<^verbatim>\<open>error\<close> are \<open>coupon_status\<close> and \<open>coupon_error\<close> here.
  A text shown to the user is either a literal passed through the translation function
  \<^verbatim>\<open>__\<close> or a string taken from the response as it is. \<^verbatim>\<open>frappe.msgprint\<close> takes a
  text, or a title, a message (here \<open>body\<close>) and an indicator.
\<close>

record update_message =
  coupon_status :: "string option"
  coupon_error :: "string option"

datatype shown_text = Translated string | Raw string

datatype msgprint =
    Plain shown_text
  | Titled (title: shown_text) (body: shown_text) (indicator: string)

definition update_shopify_coupon_code :: string where
  "update_shopify_coupon_code = ''ecommerce_integrations.shopify.coupon.update_shopify_coupon_code''"

definition update_coupon :: "string \<Rightarrow> remote_call" where
  "update_coupon name =
     \<lparr>method = update_shopify_coupon_code, args = [(''coupon_code_name'', name)], freeze = True\<rparr>"

text \<open>
  \<^verbatim>\<open>r.message && r.message.status === "success"\<close> and
  \<^verbatim>\<open>r.message && r.message.error ? r.message.error : __("Failed to update coupons.")\<close>.
\<close>

definition is_success :: "update_message option \<Rightarrow> bool" where
  "is_success r_message =
     (case r_message of None \<Rightarrow> False | Some m \<Rightarrow> coupon_status m = Some ''success'')"

definition error_text :: "update_message option \<Rightarrow> shown_text" where
  "error_text r_message =
     (case r_message of
        None \<Rightarrow> Translated ''Failed to update coupons.''
      | Some m \<Rightarrow>
          (case coupon_error m of
             None \<Rightarrow> Translated ''Failed to update coupons.''
           | Some e \<Rightarrow> if e = [] then Translated ''Failed to update coupons.'' else Raw e))"

definition update_callback :: "update_message option \<Rightarrow> msgprint" where
  "update_callback r_message =
     (if is_success r_message
      then Plain (Translated ''Coupon updated.'')
      else Titled (Translated ''Error'') (error_text r_message) ''red'')"

section \<open>Example inputs\<close>

text \<open>Payloads and forms at which the theorems below are evaluated.\<close>

text \<open>
  A runtime for the examples. It agrees with the framework and the language on what the
  examples give it: strings of ASCII letters, digits, blanks and hyphens, which have no
  character that HTML escapes, and safe integers.
\<close>

definition plain :: runtime where
  "plain = \<lparr>escape_html = (\<lambda>s. s), toUpperCase = ascii_upper, num_str = decimal\<rparr>"

definition negative_total :: progress_event where
  "negative_total = \<lparr>total = Some (- 4), progress = Some 1, current = None, status = None,
     result = None, message = None\<rparr>"

definition message_only :: progress_event where
  "message_only = \<lparr>total = None, progress = None, current = None, status = None,
     result = Some ''info'', message = Some ''Queued''\<rparr>"

definition done_early :: progress_event where
  "done_early = \<lparr>total = Some 10, progress = Some 3, current = Some ''ITEM-3'',
     status = Some ''done'', result = None, message = None\<rparr>"

definition running_empty :: progress_event where
  "running_empty = \<lparr>total = Some 0, progress = None, current = None,
     status = Some ''running'', result = None, message = None\<rparr>"

definition twenty_three_of_forty :: progress_event where
  "twenty_three_of_forty = \<lparr>total = Some 40, progress = Some 23, current = Some ''ITEM-23'',
     status = Some ''running'', result = Some ''error'', message = Some ''ITEM-23 not found''\<rparr>"

definition first_of_three :: progress_event where
  "first_of_three = \<lparr>total = Some 3, progress = Some 1, current = Some ''ITEM-1'',
     status = Some ''running'', result = Some ''success'', message = Some ''ITEM-1 updated''\<rparr>"

definition after_first :: dialog where
  "after_first = handler plain (Some first_of_three) opened"

definition two_updates :: "ui_event list" where
  "two_updates = [Publish (Some first_of_three), Publish (Some twenty_three_of_forty)]"

definition csv_filled :: dialog where
  "csv_filled = opened\<lparr>csv := Some ''ITEM-1,9.99''\<rparr>"

definition save10 :: sales_order where
  "save10 = \<lparr>shopify_coupon_code = Some ''SAVE10'', additional_discount_percentage = 15\<rparr>"

definition cleared :: sales_order where
  "cleared = \<lparr>shopify_coupon_code = Some [], additional_discount_percentage = 15\<rparr>"

definition not_found :: update_message where
  "not_found = \<lparr>coupon_status = Some ''error'', coupon_error = Some ''Coupon not found''\<rparr>"

definition updated :: update_message where
  "updated = \<lparr>coupon_status = Some ''success'', coupon_error = None\<rparr>"

section \<open>The arithmetic on known values\<close>

text \<open>
  The double nearest to one tenth; and \<^verbatim>\<open>23 / 40 * 100\<close>, which is
  \<open>57.49999999999999\<close> in doubles although the exact product is \<open>57.5\<close>.
\<close>

lemma fl_one_tenth: "fl (1 / 10) = 3602879701896397 / 2 ^ 55"
  by code_simp

lemma fl_23_of_40: "js_mul (js_div 23 40) 100 = 8092405580431359 / 2 ^ 47"
  by code_simp

lemma fl_integer: "fl 100 = 100" "fl (- 25) = - 25" "fl (2 ^ 53) = 2 ^ 53"
  by code_simp+

lemma Math_round_ties: "Math_round (5 / 2) = 3" "Math_round (- 5 / 2) = - 2"
  by code_simp+

lemma decimal_examples:
  "decimal 120 = ''120''" "decimal (- 25) = ''-25''" "decimal 0 = ''0''" "decimal 57 = ''57''"
  "decimal 33 = ''33''"
  by code_simp+

lemma ascii_upper_examples:
  "ascii_upper ''success'' = ''SUCCESS''" "ascii_upper ''error'' = ''ERROR''" "ascii_upper [] = []"
  by code_simp+

lemma join_examples:
  "join ''<br>'' [] = []"
  "join ''<br>'' [''a''] = ''a''"
  "join ''<br>'' [''a'', ''b'', ''c''] = ''a<br>b<br>c''"
  by simp_all

lemma plain_simps:
  "escape_html plain s = s"
  "toUpperCase plain = ascii_upper"
  "num_str plain = decimal"
  by (simp_all add: plain_def)

section \<open>What one call of the listener does\<close>

lemma handler_None: "handler js None d = d"
  by (simp add: handler_def)

lemma handler_messages:
  "messages (handler js (Some ev) d) =
     (if str_or (message ev) [] \<noteq> []
      then messages d
        @ [toUpperCase js (str_or (result ev) []) @ '': '' @ escape_html js (str_or (message ev) [])]
      else messages d)"
  by (simp add: handler_def Let_def)

lemma handler_progress_html:
  "progress_html (handler js (Some ev) d) =
     progress_html d @
       [html js (num_or (progress ev) 0) (num_or (total ev) 0) (str_or (current ev) [])
          (str_or (status ev) []) (percentage (num_or (total ev) 0) (num_or (progress ev) 0))
          (messages (handler js (Some ev) d))]"
  by (simp add: handler_def Let_def)

lemma handler_listening:
  "listening (handler js (Some ev) d) =
     (listening d \<and>
      \<not> (str_or (status ev) [] = ''done'' \<or> num_or (total ev) 0 \<le> num_or (progress ev) 0))"
  by (simp add: handler_def Let_def)

lemma handler_calls: "calls (handler js data d) = calls d"
  by (cases data) (simp_all add: handler_def Let_def)

lemma primary_action_frame:
  "messages (primary_action d) = messages d"
  "progress_html (primary_action d) = progress_html d"
  "listening (primary_action d) = listening d"
  by (simp_all add: primary_action_def split: option.split)

lemma html_shows_percentage:
  "sublist (''width:'' @ num_str js pct @ ''%'') (html js p t c s pct msgs)"
proof -
  have "html js p t c s pct msgs =
      (html_head @ num_str js p @ ''/'' @ num_str js t @ ''</strong> '' @ em_dash @ '' ''
        @ escape_html js c @ '' '' @ em_dash @ '' '' @ s @ html_bar)
      @ (''width:'' @ num_str js pct @ ''%'')
      @ (html_list @ join ''<br>'' msgs @ html_tail)"
    by (simp add: html_def html_before_messages_def)
  then show ?thesis
    unfolding sublist_def by blast
qed

lemma join_Cons: "join sep (x # xs) = (if xs = [] then x else x @ sep @ join sep xs)"
  by (cases xs) simp_all

lemma join_append:
  "join sep (xs @ ys) =
     (if xs = [] then join sep ys
      else if ys = [] then join sep xs
      else join sep xs @ sep @ join sep ys)"
proof (induction sep xs rule: join.induct)
  case (1 sep)
  show ?case by simp
next
  case (2 sep x)
  show ?case by (simp add: join_Cons)
next
  case (3 sep x y ys')
  then show ?case by simp
qed

lemma join_middle:
  "join sep (xs @ m # ys) =
     (if xs = [] then [] else join sep xs @ sep) @ m @ (if ys = [] then [] else sep @ join sep ys)"
  by (simp add: join_append join_Cons)

lemma join_member:
  assumes "m \<in> set msgs"
  shows "sublist m (join sep msgs)"
proof -
  from assms obtain xs ys where "msgs = xs @ m # ys"
    by (auto dest: split_list)
  then have "join sep msgs =
      (if xs = [] then [] else join sep xs @ sep) @ m @ (if ys = [] then [] else sep @ join sep ys)"
    by (simp only: join_middle)
  then show ?thesis
    unfolding sublist_def by blast
qed

lemma join_order:
  "\<exists>a b c. join sep (xs @ m # ys @ m' # zs) = a @ m @ b @ m' @ c"
proof -
  obtain a where a: "join sep (xs @ m # ys @ m' # zs) = a @ m @ sep @ join sep (ys @ m' # zs)"
    using join_middle [of sep xs m "ys @ m' # zs"] by simp
  obtain b c where "join sep (ys @ m' # zs) = b @ m' @ c"
    using join_middle [of sep ys m' zs] by blast
  with a have "join sep (xs @ m # ys @ m' # zs) = a @ m @ (sep @ b) @ m' @ c"
    by simp
  then show ?thesis by blast
qed

lemma join_adjacent: "sublist (m @ sep @ m') (join sep (xs @ m # m' # zs))"
proof -
  have "join sep (xs @ m # m' # zs) =
      (if xs = [] then [] else join sep xs @ sep) @ (m @ sep @ m')
      @ (if zs = [] then [] else sep @ join sep zs)"
    using join_middle [of sep xs m "m' # zs"] by (simp add: join_Cons)
  then show ?thesis
    unfolding sublist_def by blast
qed

lemma html_contains_messages:
  "sublist (join ''<br>'' msgs) (html js p t c s pct msgs)"
  by (simp add: html_def)

lemma handler_shows_messages:
  "sublist (join ''<br>'' (messages (handler js (Some ev) d)))
     (last (progress_html (handler js (Some ev) d)))"
  by (simp add: handler_progress_html html_contains_messages)

text \<open>What a string that contains the joined messages contains of each of them.\<close>

lemma joined_shows_each:
  assumes "sublist (join sep msgs) rendering" and "m \<in> set msgs"
  shows "sublist m rendering"
  using join_member [OF assms(2), of sep] assms(1) by (rule sublist_order.order.trans)

lemma joined_shows_order:
  assumes "sublist (join sep msgs) rendering" and "msgs = xs @ m # ys @ m' # zs"
  shows "\<exists>a b c. rendering = a @ m @ b @ m' @ c"
proof -
  from assms(1) obtain p q where r: "rendering = p @ join sep msgs @ q"
    unfolding sublist_def by blast
  from join_order [of sep xs m ys m' zs] assms(2)
  obtain a b c where "join sep msgs = a @ m @ b @ m' @ c"
    by blast
  with r have "rendering = (p @ a) @ m @ b @ m' @ (c @ q)"
    by simp
  then show ?thesis by blast
qed

lemma joined_shows_adjacent:
  assumes "sublist (join sep msgs) rendering" and "msgs = xs @ m # m' # zs"
  shows "sublist (m @ sep @ m') rendering"
  using join_adjacent [of m sep m' xs zs] assms by (auto intro: sublist_order.order.trans)

section \<open>Runs of the dialog\<close>

lemma run_snoc: "run js d (es @ [e]) = step js (run js d es) e"
  by (simp add: run_def)

lemma step_messages_prefix: "prefix (messages d) (messages (step js d e))"
proof (cases e)
  case (Publish data)
  then show ?thesis
    by (cases data) (simp_all add: handler_None handler_messages)
qed (simp_all add: onhide_def primary_action_frame)

lemma run_messages_prefix: "prefix (messages d) (messages (run js d es))"
  unfolding run_def
proof (induction es arbitrary: d)
  case Nil
  show ?case by simp
next
  case (Cons e es)
  have "prefix (messages d) (messages (step js d e))"
    by (rule step_messages_prefix)
  also have "prefix (messages (step js d e))
      (messages (foldl (step js) (step js d e) es))"
    by (rule Cons.IH)
  finally show ?case by simp
qed

lemma step_keeps_listening:
  assumes "listening d" and "e \<noteq> Hide"
    and "\<And>ev. e = Publish (Some ev) \<Longrightarrow>
           \<not> (str_or (status ev) [] = ''done'' \<or> num_or (total ev) 0 \<le> num_or (progress ev) 0)"
  shows "listening (step js d e)"
proof (cases e)
  case (Publish data)
  show ?thesis
  proof (cases data)
    case None
    with Publish assms(1) show ?thesis by (simp add: handler_None)
  next
    case (Some ev)
    with Publish assms(1) assms(3) [of ev] show ?thesis by (simp add: handler_listening)
  qed
next
  case (Edit v)
  with assms(1) show ?thesis by simp
next
  case Start
  with assms(1) show ?thesis by (simp add: primary_action_frame)
next
  case Hide
  with assms(2) show ?thesis by simp
qed

lemma run_keeps_listening:
  assumes "listening d" and "Hide \<notin> set es"
    and "\<And>ev. Publish (Some ev) \<in> set es \<Longrightarrow>
           \<not> (str_or (status ev) [] = ''done'' \<or> num_or (total ev) 0 \<le> num_or (progress ev) 0)"
  shows "listening (run js d es)"
  using assms
proof (induction es arbitrary: d)
  case Nil
  then show ?case by (simp add: run_def)
next
  case (Cons e es)
  have "listening (step js d e)"
  proof (rule step_keeps_listening)
    show "listening d" by (rule Cons.prems(1))
    show "e \<noteq> Hide" using Cons.prems(2) by auto
    show "\<not> (str_or (status ev) [] = ''done'' \<or> num_or (total ev) 0 \<le> num_or (progress ev) 0)"
      if "e = Publish (Some ev)" for ev
      using that Cons.prems(3) [of ev] by simp
  qed
  then have "listening (run js (step js d e) es)"
  proof (rule Cons.IH)
    show "Hide \<notin> set es" using Cons.prems(2) by simp
    show "\<not> (str_or (status ev) [] = ''done'' \<or> num_or (total ev) 0 \<le> num_or (progress ev) 0)"
      if "Publish (Some ev) \<in> set es" for ev
      using that Cons.prems(3) [of ev] by simp
  qed
  then show ?case by (simp add: run_def)
qed

lemma step_shows_messages:
  assumes "(progress_html d = [] \<and> messages d = []) \<or>
           sublist (join ''<br>'' (messages d)) (last (progress_html d))"
  shows "(progress_html (step js d e) = [] \<and> messages (step js d e) = []) \<or>
         sublist (join ''<br>'' (messages (step js d e)))
           (last (progress_html (step js d e)))"
proof (cases e)
  case (Publish data)
  show ?thesis
  proof (cases "listening d")
    case False
    with Publish assms show ?thesis by simp
  next
    case True
    show ?thesis
    proof (cases data)
      case None
      with Publish True assms show ?thesis by (simp add: handler_None)
    next
      case (Some ev)
      with Publish True show ?thesis by (simp add: handler_shows_messages)
    qed
  qed
next
  case (Edit v)
  with assms show ?thesis by simp
next
  case Start
  with assms show ?thesis by (simp add: primary_action_frame)
next
  case Hide
  with assms show ?thesis by (simp add: onhide_def)
qed

lemma run_shows_messages:
  "(progress_html (run js opened es) = [] \<and> messages (run js opened es) = []) \<or>
   sublist (join ''<br>'' (messages (run js opened es)))
     (last (progress_html (run js opened es)))"
proof (induction es rule: rev_induct)
  case Nil
  show ?case by (simp add: run_def opened_def)
next
  case (snoc e es)
  then show ?case
    unfolding run_snoc by (rule step_shows_messages)
qed

lemma example_run:
  "messages (run plain opened
      [Edit (Some ''ITEM-1,9.99''), Start, Publish (Some first_of_three), Publish None,
       Publish (Some done_early), Publish (Some first_of_three)])
     = [''SUCCESS: ITEM-1 updated'']"
  "listening (run plain opened
      [Edit (Some ''ITEM-1,9.99''), Start, Publish (Some first_of_three), Publish None,
       Publish (Some done_early), Publish (Some first_of_three)])
     = False"
  "length (progress_html (run plain opened
      [Edit (Some ''ITEM-1,9.99''), Start, Publish (Some first_of_three), Publish None,
       Publish (Some done_early), Publish (Some first_of_three)]))
     = 2"
  "map args (calls (run plain opened
      [Edit (Some ''ITEM-1,9.99''), Start, Publish (Some first_of_three), Publish None,
       Publish (Some done_early), Publish (Some first_of_three)]))
     = [[(''csv'', ''ITEM-1,9.99'')]]"
  by (simp_all add: run_def opened_def primary_action_def handler_def Let_def first_of_three_def
      done_early_def str_or_def num_or_def plain_simps ascii_upper_examples)

section \<open>The claims about the Batch Update Price dialog\<close>

lemma percentage_negative_total: "percentage (- 4) 1 = - 25"
  by code_simp

lemma percentage_23_of_40: "percentage 40 23 = 57"
  by code_simp

lemma percentage_1_of_3: "percentage 3 1 = 33"
  by code_simp

lemma percentage_3_of_10: "percentage 10 3 = 30"
  by code_simp

lemma safe_integer_examples:
  "safe_integer 0" "safe_integer 1" "safe_integer 3" "safe_integer 10" "safe_integer 23"
  "safe_integer 40" "safe_integer (- 4)"
  by (simp_all add: safe_integer_def)

text \<open>
  C1, as amended. For every payload the listener handles whose counts are safe integers,
  the percentage \<open>pct\<close> that is displayed is \<^verbatim>\<open>Math.round((progress / total) * 100)\<close>,
  in double arithmetic, whenever the total is a number other than zero, negative totals
  included, and is \<open>0\<close> when the total is absent or zero; an absent progress counts as
  \<open>0\<close>. It is displayed as the width of the bar, printed as the runtime prints a number.
\<close>

theorem displayed_percentage:
  assumes "safe_integer (num_or (total ev) 0)" and "safe_integer (num_or (progress ev) 0)"
    and "pct =
      (case total ev of
         None \<Rightarrow> 0
       | Some t \<Rightarrow>
           if t = 0 then 0
           else Math_round (js_mul (js_div (of_int (num_or (progress ev) 0)) (of_int t)) 100))"
  shows "progress_html (handler js (Some ev) d) =
           progress_html d @
             [html js (num_or (progress ev) 0) (num_or (total ev) 0) (str_or (current ev) [])
                (str_or (status ev) []) pct (messages (handler js (Some ev) d))] \<and>
         sublist (''width:'' @ num_str js pct @ ''%'')
           (last (progress_html (handler js (Some ev) d)))"
proof -
  have "percentage (num_or (total ev) 0) (num_or (progress ev) 0) = pct"
    unfolding assms(3) by (simp add: percentage_def num_or_def split: option.split)
  then have "progress_html (handler js (Some ev) d) =
      progress_html d @
        [html js (num_or (progress ev) 0) (num_or (total ev) 0) (str_or (current ev) [])
           (str_or (status ev) []) pct (messages (handler js (Some ev) d))]"
    by (simp add: handler_progress_html)
  then show ?thesis
    using html_shows_percentage [of js pct "num_or (progress ev) 0" "num_or (total ev) 0"
        "str_or (current ev) []" "str_or (status ev) []" "messages (handler js (Some ev) d)"]
    by simp
qed

theorem displayed_percentage_witness:
  "safe_integer (num_or (total twenty_three_of_forty) 0) \<and>
   safe_integer (num_or (progress twenty_three_of_forty) 0) \<and>
   progress_html (handler plain (Some twenty_three_of_forty) opened) =
     [html plain 23 40 ''ITEM-23'' ''running'' 57 [''ERROR: ITEM-23 not found'']] \<and>
   sublist ''width:57%'' (last (progress_html (handler plain (Some twenty_three_of_forty) opened)))"
proof -
  have t: "num_or (total twenty_three_of_forty) 0 = 40"
    and p: "num_or (progress twenty_three_of_forty) 0 = 23"
    by (simp_all add: twenty_three_of_forty_def num_or_def)
  have a: "safe_integer (num_or (total twenty_three_of_forty) 0)"
    and b: "safe_integer (num_or (progress twenty_three_of_forty) 0)"
    by (simp_all add: t p safe_integer_examples)
  have c: "(57 :: int) =
      (case total twenty_three_of_forty of
         None \<Rightarrow> 0
       | Some t \<Rightarrow>
           if t = 0 then 0
           else Math_round
             (js_mul (js_div (of_int (num_or (progress twenty_three_of_forty) 0)) (of_int t)) 100))"
    using percentage_23_of_40 by (simp add: twenty_three_of_forty_def num_or_def percentage_def)
  have m: "messages (handler plain (Some twenty_three_of_forty) opened)
      = [''ERROR: ITEM-23 not found'']"
    by (simp add: handler_messages twenty_three_of_forty_def opened_def str_or_def plain_simps
        ascii_upper_examples)
  have s: "str_or (current twenty_three_of_forty) [] = ''ITEM-23''"
    "str_or (status twenty_three_of_forty) [] = ''running''"
    by (simp_all add: twenty_three_of_forty_def str_or_def)
  have o: "progress_html opened = []"
    by (simp add: opened_def)
  note th = displayed_percentage [OF a b c, of plain opened]
  from th [THEN conjunct1]
  have r: "progress_html (handler plain (Some twenty_three_of_forty) opened) =
      [html plain 23 40 ''ITEM-23'' ''running'' 57 [''ERROR: ITEM-23 not found'']]"
    by (simp add: t p m s o)
  from th [THEN conjunct2]
  have w: "sublist ''width:57%''
      (last (progress_html (handler plain (Some twenty_three_of_forty) opened)))"
    by (simp add: plain_simps decimal_examples)
  from a b r w show ?thesis
    by (simp only: simp_thms)
qed

text \<open>
  C1 as stated fails: the payload \<^verbatim>\<open>{total: -4, progress: 1}\<close> has a total that is not
  above zero, and is rendered with the percentage \<open>-25\<close>, not \<open>0\<close>.
\<close>

theorem displayed_percentage_counterexample:
  "\<not> 0 < num_or (total negative_total) 0 \<and>
   progress_html (handler plain (Some negative_total) opened)
     = [html plain 1 (- 4) [] [] (- 25) []] \<and>
   sublist ''width:-25%'' (html plain 1 (- 4) [] [] (- 25) [])"
proof -
  have "progress_html (handler plain (Some negative_total) opened)
      = [html plain 1 (- 4) [] [] (- 25) []]"
    by (simp add: handler_progress_html handler_messages negative_total_def opened_def
        num_or_def str_or_def percentage_negative_total)
  moreover have "sublist ''width:-25%'' (html plain 1 (- 4) [] [] (- 25) [])"
    using html_shows_percentage [of plain "- 25" 1 "- 4" "[]" "[]" "[]"]
    by (simp add: plain_simps decimal_examples)
  moreover have "\<not> 0 < num_or (total negative_total) 0"
    by (simp add: negative_total_def num_or_def)
  ultimately show ?thesis by simp
qed

text \<open>
  C2, as amended. The listener is removed only by closing the dialog or by a payload
  whose status is \<^verbatim>\<open>done\<close> or whose progress, absent counting as \<open>0\<close>, has reached
  its total, absent counting as \<open>0\<close>. No other event removes it: an event that removes
  it is one of these, and so is some event of every sequence of events that removes it.
\<close>

theorem listener_removed_only_by_completion_or_hide:
  assumes "listening d"
  shows "(\<not> listening (step js d e) \<longrightarrow>
            e = Hide \<or>
            (\<exists>ev. e = Publish (Some ev) \<and>
                  (str_or (status ev) [] = ''done'' \<or>
                   num_or (total ev) 0 \<le> num_or (progress ev) 0))) \<and>
         (\<not> listening (run js d es) \<longrightarrow>
            (\<exists>e \<in> set es.
               e = Hide \<or>
               (\<exists>ev. e = Publish (Some ev) \<and>
                     (str_or (status ev) [] = ''done'' \<or>
                      num_or (total ev) 0 \<le> num_or (progress ev) 0))))"
proof (intro conjI impI)
  assume "\<not> listening (step js d e)"
  with assms step_keeps_listening [of d e js]
  show "e = Hide \<or>
        (\<exists>ev. e = Publish (Some ev) \<and>
              (str_or (status ev) [] = ''done'' \<or>
               num_or (total ev) 0 \<le> num_or (progress ev) 0))"
    by blast
next
  assume "\<not> listening (run js d es)"
  with assms run_keeps_listening [of d es js]
  show "\<exists>e \<in> set es.
          e = Hide \<or>
          (\<exists>ev. e = Publish (Some ev) \<and>
                (str_or (status ev) [] = ''done'' \<or>
                 num_or (total ev) 0 \<le> num_or (progress ev) 0))"
    by blast
qed

theorem listener_removed_only_by_completion_or_hide_witness:
  "listening opened \<and>
   \<not> listening (step plain opened (Publish (Some done_early))) \<and>
   (Publish (Some done_early) = Hide \<or>
    (\<exists>ev. Publish (Some done_early) = Publish (Some ev) \<and>
          (str_or (status ev) [] = ''done'' \<or>
           num_or (total ev) 0 \<le> num_or (progress ev) 0))) \<and>
   \<not> listening (run plain opened [Publish (Some first_of_three), Hide]) \<and>
   (\<exists>e \<in> set [Publish (Some first_of_three), Hide].
      e = Hide \<or>
      (\<exists>ev. e = Publish (Some ev) \<and>
            (str_or (status ev) [] = ''done'' \<or>
             num_or (total ev) 0 \<le> num_or (progress ev) 0)))"
proof -
  have a: "listening opened"
    by (simp add: opened_def)
  have b: "\<not> listening (step plain opened (Publish (Some done_early)))"
    by (simp add: a handler_listening done_early_def str_or_def)
  have c: "\<not> listening (run plain opened [Publish (Some first_of_three), Hide])"
    by (simp add: run_def onhide_def)
  from listener_removed_only_by_completion_or_hide
    [OF a, of plain "Publish (Some done_early)" "[Publish (Some first_of_three), Hide]"]
    a b c
  show ?thesis by blast
qed

text \<open>
  C2 as stated fails: the payload \<^verbatim>\<open>{result: 'info', message: 'Queued'}\<close> carries no
  status and no counts, the dialog stays open, and the listener is removed.
\<close>

theorem listener_removed_counterexample:
  "listening opened \<and>
   \<not> listening (step plain opened (Publish (Some message_only))) \<and>
   Publish (Some message_only) \<noteq> Hide \<and>
   status message_only = None \<and> total message_only = None \<and> progress message_only = None"
  by (simp add: opened_def handler_listening message_only_def str_or_def num_or_def)

text \<open>
  C3. A payload whose status is \<^verbatim>\<open>done\<close> is rendered, and the listener is no longer
  registered afterwards.
\<close>

theorem done_status_deregisters:
  assumes "status ev = Some ''done''"
  shows "\<not> listening (handler js (Some ev) d) \<and>
         \<not> listening (step js d (Publish (Some ev))) \<and>
         length (progress_html (handler js (Some ev) d)) = Suc (length (progress_html d))"
  using assms by (simp add: handler_listening handler_progress_html str_or_def)

theorem done_status_deregisters_witness:
  "status done_early = Some ''done'' \<and>
   \<not> listening (handler plain (Some done_early) opened) \<and>
   \<not> listening (step plain opened (Publish (Some done_early))) \<and>
   length (progress_html (handler plain (Some done_early) opened))
     = Suc (length (progress_html opened))"
proof -
  have a: "status done_early = Some ''done''"
    by (simp add: done_early_def)
  from done_status_deregisters [OF a, of plain opened] a show ?thesis
    by simp
qed

text \<open>
  C4. Pressing Start with a non-empty \<open>csv\<close> value sends exactly one request, to the batch
  update method, with that value as its \<open>csv\<close> argument; with an empty or absent value
  it sends none.
\<close>

theorem start_sends_one_call:
  "(csv d = Some v \<and> v \<noteq> [] \<longrightarrow>
      calls (step js d Start) =
        calls d
        @ [\<lparr>method = ''ecommerce_integrations.shopify.product.batch_update_prices_from_csv'',
             args = [(''csv'', v)], freeze = True\<rparr>]) \<and>
   (csv d = None \<or> csv d = Some [] \<longrightarrow> calls (step js d Start) = calls d)"
  by (auto simp: primary_action_def batch_update_prices_from_csv_def)

theorem start_sends_one_call_witness:
  "calls (step plain csv_filled Start) =
     [\<lparr>method = ''ecommerce_integrations.shopify.product.batch_update_prices_from_csv'',
       args = [(''csv'', ''ITEM-1,9.99'')], freeze = True\<rparr>] \<and>
   calls (step plain opened Start) = []"
proof -
  have a: "csv csv_filled = Some ''ITEM-1,9.99'' \<and> ''ITEM-1,9.99'' \<noteq> []"
    by (simp add: csv_filled_def)
  have b: "csv opened = None \<or> csv opened = Some []"
    by (simp add: opened_def)
  have c: "calls csv_filled = []" "calls opened = []"
    by (simp_all add: csv_filled_def opened_def)
  from start_sends_one_call [of csv_filled "''ITEM-1,9.99''" plain]
    start_sends_one_call [of opened "[]" plain] a b c
  show ?thesis by simp
qed

text \<open>
  C7. Every payload the listener handles appends one entry to \<open>messages\<close> when its
  message is a non-empty string, the upper-cased result, a colon and the escaped message,
  and leaves \<open>messages\<close> as it is otherwise. In both cases it renders the progress HTML
  once more, with the messages accumulated so far. When the counts are safe integers, the
  rendering is the template filled with the payload's fields, those messages and the
  percentage \<open>pct\<close> recomputed from the payload's progress and total, which it shows as
  the width of the bar.
\<close>

theorem handler_appends_and_renders:
  "messages (handler js (Some ev) d) =
     (case message ev of
        None \<Rightarrow> messages d
      | Some m \<Rightarrow>
          if m = [] then messages d
          else messages d @ [toUpperCase js (str_or (result ev) []) @ '': '' @ escape_html js m]) \<and>
   length (progress_html (handler js (Some ev) d)) = Suc (length (progress_html d)) \<and>
   sublist (join ''<br>'' (messages (handler js (Some ev) d)))
     (last (progress_html (handler js (Some ev) d))) \<and>
   (safe_integer (num_or (total ev) 0) \<and> safe_integer (num_or (progress ev) 0) \<and>
    pct =
      (if num_or (total ev) 0 = 0 then 0
       else Math_round
         (js_mul (js_div (of_int (num_or (progress ev) 0)) (of_int (num_or (total ev) 0))) 100))
    \<longrightarrow>
      progress_html (handler js (Some ev) d) =
        progress_html d @
          [html js (num_or (progress ev) 0) (num_or (total ev) 0) (str_or (current ev) [])
             (str_or (status ev) []) pct (messages (handler js (Some ev) d))] \<and>
      sublist (''width:'' @ num_str js pct @ ''%'')
        (last (progress_html (handler js (Some ev) d))))"
proof (intro conjI impI)
  show "messages (handler js (Some ev) d) =
      (case message ev of
         None \<Rightarrow> messages d
       | Some m \<Rightarrow>
           if m = [] then messages d
           else messages d @ [toUpperCase js (str_or (result ev) []) @ '': '' @ escape_html js m])"
    by (simp add: handler_messages str_or_def split: option.split)
  show "length (progress_html (handler js (Some ev) d)) = Suc (length (progress_html d))"
    by (simp add: handler_progress_html)
  show "sublist (join ''<br>'' (messages (handler js (Some ev) d)))
      (last (progress_html (handler js (Some ev) d)))"
    by (rule handler_shows_messages)
next
  assume a: "safe_integer (num_or (total ev) 0) \<and> safe_integer (num_or (progress ev) 0) \<and>
    pct =
      (if num_or (total ev) 0 = 0 then 0
       else Math_round
         (js_mul (js_div (of_int (num_or (progress ev) 0)) (of_int (num_or (total ev) 0))) 100))"
  then have "percentage (num_or (total ev) 0) (num_or (progress ev) 0) = pct"
    by (simp add: percentage_def)
  then show r: "progress_html (handler js (Some ev) d) =
      progress_html d @
        [html js (num_or (progress ev) 0) (num_or (total ev) 0) (str_or (current ev) [])
           (str_or (status ev) []) pct (messages (handler js (Some ev) d))]"
    by (simp add: handler_progress_html)
  show "sublist (''width:'' @ num_str js pct @ ''%'')
      (last (progress_html (handler js (Some ev) d)))"
    unfolding r
    using html_shows_percentage [of js pct "num_or (progress ev) 0" "num_or (total ev) 0"
        "str_or (current ev) []" "str_or (status ev) []" "messages (handler js (Some ev) d)"]
    by simp
qed

theorem handler_appends_and_renders_witness:
  "safe_integer (num_or (total first_of_three) 0) \<and>
   safe_integer (num_or (progress first_of_three) 0) \<and>
   messages (handler plain (Some first_of_three) opened) = [''SUCCESS: ITEM-1 updated''] \<and>
   progress_html (handler plain (Some first_of_three) opened) =
     [html plain 1 3 ''ITEM-1'' ''running'' 33 [''SUCCESS: ITEM-1 updated'']] \<and>
   sublist ''width:33%'' (last (progress_html (handler plain (Some first_of_three) opened))) \<and>
   sublist ''SUCCESS: ITEM-1 updated''
     (last (progress_html (handler plain (Some first_of_three) opened))) \<and>
   messages (handler plain (Some done_early) after_first) = messages after_first \<and>
   length (progress_html (handler plain (Some done_early) after_first))
     = Suc (length (progress_html after_first))"
proof -
  have t: "num_or (total first_of_three) 0 = 3"
    and p: "num_or (progress first_of_three) 0 = 1"
    by (simp_all add: first_of_three_def num_or_def)
  have a: "safe_integer (num_or (total first_of_three) 0)"
    and b: "safe_integer (num_or (progress first_of_three) 0)"
    by (simp_all add: t p safe_integer_examples)
  have c: "(33 :: int) =
      (if num_or (total first_of_three) 0 = 0 then 0
       else Math_round
         (js_mul (js_div (of_int (num_or (progress first_of_three) 0))
            (of_int (num_or (total first_of_three) 0))) 100))"
    using percentage_1_of_3 by (simp add: t p percentage_def)
  have f: "message first_of_three = Some ''ITEM-1 updated''"
    "str_or (result first_of_three) [] = ''success''"
    "str_or (current first_of_three) [] = ''ITEM-1''"
    "str_or (status first_of_three) [] = ''running''"
    by (simp_all add: first_of_three_def str_or_def)
  have o: "progress_html opened = []" "messages opened = []"
    by (simp_all add: opened_def)
  note th = handler_appends_and_renders [of plain first_of_three opened 33]
  from th [THEN conjunct1]
  have m: "messages (handler plain (Some first_of_three) opened) = [''SUCCESS: ITEM-1 updated'']"
    by (simp add: f o plain_simps ascii_upper_examples)
  from th [THEN conjunct2, THEN conjunct2, THEN conjunct1]
  have j: "sublist ''SUCCESS: ITEM-1 updated''
      (last (progress_html (handler plain (Some first_of_three) opened)))"
    by (simp add: m)
  from th [THEN conjunct2, THEN conjunct2, THEN conjunct2] a b c
  have rw: "progress_html (handler plain (Some first_of_three) opened) =
        progress_html opened @
          [html plain (num_or (progress first_of_three) 0) (num_or (total first_of_three) 0)
             (str_or (current first_of_three) []) (str_or (status first_of_three) []) 33
             (messages (handler plain (Some first_of_three) opened))] \<and>
      sublist (''width:'' @ num_str plain 33 @ ''%'')
        (last (progress_html (handler plain (Some first_of_three) opened)))"
    by blast
  from rw [THEN conjunct1]
  have r: "progress_html (handler plain (Some first_of_three) opened) =
      [html plain 1 3 ''ITEM-1'' ''running'' 33 [''SUCCESS: ITEM-1 updated'']]"
    by (simp add: t p f o m)
  from rw [THEN conjunct2]
  have w: "sublist ''width:33%''
      (last (progress_html (handler plain (Some first_of_three) opened)))"
    by (simp add: plain_simps decimal_examples)
  note th' = handler_appends_and_renders [of plain done_early after_first 30]
  from th' [THEN conjunct1]
  have n: "messages (handler plain (Some done_early) after_first) = messages after_first"
    by (simp add: done_early_def)
  from th' [THEN conjunct2, THEN conjunct1]
  have l: "length (progress_html (handler plain (Some done_early) after_first))
      = Suc (length (progress_html after_first))" .
  from a b m r w j n l show ?thesis
    by (intro conjI)
qed

text \<open>
  C9. A payload whose progress and total are both absent or zero removes the listener,
  whatever its status.
\<close>

theorem zero_counts_deregister:
  assumes "total ev = None \<or> total ev = Some 0"
    and "progress ev = None \<or> progress ev = Some 0"
  shows "\<not> listening (handler js (Some ev) d) \<and>
         \<not> listening (step js d (Publish (Some ev)))"
  using assms by (auto simp: handler_listening num_or_def)

theorem zero_counts_deregister_witness:
  "(total running_empty = None \<or> total running_empty = Some 0) \<and>
   (progress running_empty = None \<or> progress running_empty = Some 0) \<and>
   status running_empty = Some ''running'' \<and>
   \<not> listening (handler plain (Some running_empty) opened) \<and>
   \<not> listening (step plain opened (Publish (Some running_empty)))"
proof -
  have a: "total running_empty = None \<or> total running_empty = Some 0"
    and b: "progress running_empty = None \<or> progress running_empty = Some 0"
    by (simp_all add: running_empty_def)
  from zero_counts_deregister [OF a b, of plain opened] a b show ?thesis
    by (simp add: running_empty_def)
qed

lemma run_shows_each:
  assumes "m \<in> set (messages (run js opened es))"
  shows "sublist m (last (progress_html (run js opened es)))"
  using run_shows_messages [of js es] assms by (auto intro: joined_shows_each)

lemma run_shows_order:
  assumes "messages (run js opened es) = xs @ m # ys @ m' # zs"
  shows "\<exists>a b c. last (progress_html (run js opened es)) = a @ m @ b @ m' @ c"
proof -
  from run_shows_messages [of js es] assms
  have "sublist (join ''<br>'' (messages (run js opened es)))
      (last (progress_html (run js opened es)))"
    by auto
  then show ?thesis
    using assms by (rule joined_shows_order)
qed

lemma run_shows_adjacent:
  assumes "messages (run js opened es) = xs @ m # m' # zs"
  shows "sublist (m @ ''<br>'' @ m') (last (progress_html (run js opened es)))"
proof -
  from run_shows_messages [of js es] assms
  have "sublist (join ''<br>'' (messages (run js opened es)))
      (last (progress_html (run js opened es)))"
    by auto
  then show ?thesis
    using assms by (rule joined_shows_adjacent)
qed

lemma after_first_listening: "listening after_first"
  by (simp add: after_first_def handler_listening first_of_three_def opened_def
      str_or_def num_or_def)

lemma after_first_messages: "messages after_first = [''SUCCESS: ITEM-1 updated'']"
  by (simp add: after_first_def handler_messages first_of_three_def opened_def str_or_def
      plain_simps ascii_upper_examples)

lemma run_two_updates:
  "run plain opened two_updates = handler plain (Some twenty_three_of_forty) after_first"
proof -
  have "listening opened"
    by (simp add: opened_def)
  then show ?thesis
    using after_first_listening by (simp add: run_def two_updates_def after_first_def)
qed

lemma two_updates_messages:
  "messages (handler plain (Some twenty_three_of_forty) after_first)
     = [''SUCCESS: ITEM-1 updated'', ''ERROR: ITEM-23 not found'']"
  by (simp add: handler_messages after_first_messages twenty_three_of_forty_def str_or_def
      plain_simps ascii_upper_examples)

text \<open>
  C10. Whatever happens to a dialog, the messages it held remain the first entries of
  \<open>messages\<close>, in their order: none is removed and none changes its place. Every
  rendering of the listener contains each message accumulated so far, an earlier message
  before a later one, and two consecutive messages with \<^verbatim>\<open><br>\<close> between them. The
  same holds at every moment after the dialog was opened for the latest rendering and
  the messages accumulated until then.
\<close>

theorem messages_grow_and_are_rendered:
  "prefix (messages d) (messages (run js d es)) \<and>
   (m \<in> set (messages (handler js (Some ev) d)) \<longrightarrow>
      sublist m (last (progress_html (handler js (Some ev) d)))) \<and>
   (messages (handler js (Some ev) d) = xs @ m # ys @ m' # zs \<longrightarrow>
      (\<exists>a b c. last (progress_html (handler js (Some ev) d)) = a @ m @ b @ m' @ c)) \<and>
   (messages (handler js (Some ev) d) = xs @ m # m' # zs \<longrightarrow>
      sublist (m @ ''<br>'' @ m') (last (progress_html (handler js (Some ev) d)))) \<and>
   (m \<in> set (messages (run js opened es)) \<longrightarrow>
      sublist m (last (progress_html (run js opened es)))) \<and>
   (messages (run js opened es) = xs @ m # ys @ m' # zs \<longrightarrow>
      (\<exists>a b c. last (progress_html (run js opened es)) = a @ m @ b @ m' @ c)) \<and>
   (messages (run js opened es) = xs @ m # m' # zs \<longrightarrow>
      sublist (m @ ''<br>'' @ m') (last (progress_html (run js opened es))))"
proof (intro conjI impI)
  show "prefix (messages d) (messages (run js d es))"
    by (rule run_messages_prefix)
  show "sublist m (last (progress_html (handler js (Some ev) d)))"
    if "m \<in> set (messages (handler js (Some ev) d))"
    using handler_shows_messages that by (rule joined_shows_each)
  show "\<exists>a b c. last (progress_html (handler js (Some ev) d)) = a @ m @ b @ m' @ c"
    if "messages (handler js (Some ev) d) = xs @ m # ys @ m' # zs"
    using handler_shows_messages that by (rule joined_shows_order)
  show "sublist (m @ ''<br>'' @ m') (last (progress_html (handler js (Some ev) d)))"
    if "messages (handler js (Some ev) d) = xs @ m # m' # zs"
    using handler_shows_messages that by (rule joined_shows_adjacent)
  show "sublist m (last (progress_html (run js opened es)))"
    if "m \<in> set (messages (run js opened es))"
    using that by (rule run_shows_each)
  show "\<exists>a b c. last (progress_html (run js opened es)) = a @ m @ b @ m' @ c"
    if "messages (run js opened es) = xs @ m # ys @ m' # zs"
    using that by (rule run_shows_order)
  show "sublist (m @ ''<br>'' @ m') (last (progress_html (run js opened es)))"
    if "messages (run js opened es) = xs @ m # m' # zs"
    using that by (rule run_shows_adjacent)
qed

theorem messages_grow_and_are_rendered_witness:
  "messages (run plain opened two_updates)
     = [''SUCCESS: ITEM-1 updated'', ''ERROR: ITEM-23 not found''] \<and>
   prefix (messages after_first) (messages (run plain after_first two_updates)) \<and>
   sublist ''SUCCESS: ITEM-1 updated'' (last (progress_html (run plain opened two_updates))) \<and>
   (\<exists>a b c. last (progress_html (run plain opened two_updates))
      = a @ ''SUCCESS: ITEM-1 updated'' @ b @ ''ERROR: ITEM-23 not found'' @ c) \<and>
   sublist (''SUCCESS: ITEM-1 updated'' @ ''<br>'' @ ''ERROR: ITEM-23 not found'')
     (last (progress_html (run plain opened two_updates))) \<and>
   sublist ''SUCCESS: ITEM-1 updated''
     (last (progress_html (handler plain (Some twenty_three_of_forty) after_first))) \<and>
   (\<exists>a b c. last (progress_html (handler plain (Some twenty_three_of_forty) after_first))
      = a @ ''SUCCESS: ITEM-1 updated'' @ b @ ''ERROR: ITEM-23 not found'' @ c) \<and>
   sublist (''SUCCESS: ITEM-1 updated'' @ ''<br>'' @ ''ERROR: ITEM-23 not found'')
     (last (progress_html (handler plain (Some twenty_three_of_forty) after_first)))"
proof -
  have h: "messages (handler plain (Some twenty_three_of_forty) after_first)
      = [] @ ''SUCCESS: ITEM-1 updated'' # [] @ ''ERROR: ITEM-23 not found'' # []"
    by (simp add: two_updates_messages)
  have r: "messages (run plain opened two_updates)
      = [] @ ''SUCCESS: ITEM-1 updated'' # [] @ ''ERROR: ITEM-23 not found'' # []"
    by (simp add: run_two_updates two_updates_messages)
  have h': "messages (handler plain (Some twenty_three_of_forty) after_first)
      = [] @ ''SUCCESS: ITEM-1 updated'' # ''ERROR: ITEM-23 not found'' # []"
    by (simp add: two_updates_messages)
  have r': "messages (run plain opened two_updates)
      = [] @ ''SUCCESS: ITEM-1 updated'' # ''ERROR: ITEM-23 not found'' # []"
    by (simp add: run_two_updates two_updates_messages)
  have hm: "''SUCCESS: ITEM-1 updated''
      \<in> set (messages (handler plain (Some twenty_three_of_forty) after_first))"
    by (simp add: two_updates_messages)
  have rm: "''SUCCESS: ITEM-1 updated'' \<in> set (messages (run plain opened two_updates))"
    by (simp add: run_two_updates two_updates_messages)
  note th = messages_grow_and_are_rendered
    [of after_first plain two_updates "''SUCCESS: ITEM-1 updated''" twenty_three_of_forty
      "[]" "[]" "''ERROR: ITEM-23 not found''" "[]"]
  have 0: "messages (run plain opened two_updates)
      = [''SUCCESS: ITEM-1 updated'', ''ERROR: ITEM-23 not found'']"
    by (simp add: run_two_updates two_updates_messages)
  from th have 1: "prefix (messages after_first) (messages (run plain after_first two_updates))"
    by (rule conjunct1)
  from th hm have 2: "sublist ''SUCCESS: ITEM-1 updated''
      (last (progress_html (handler plain (Some twenty_three_of_forty) after_first)))"
    by blast
  from th h have 3: "\<exists>a b c.
      last (progress_html (handler plain (Some twenty_three_of_forty) after_first))
        = a @ ''SUCCESS: ITEM-1 updated'' @ b @ ''ERROR: ITEM-23 not found'' @ c"
    by blast
  from th h' have 4: "sublist (''SUCCESS: ITEM-1 updated'' @ ''<br>'' @ ''ERROR: ITEM-23 not found'')
      (last (progress_html (handler plain (Some twenty_three_of_forty) after_first)))"
    by blast
  from th rm have 5: "sublist ''SUCCESS: ITEM-1 updated''
      (last (progress_html (run plain opened two_updates)))"
    by blast
  from th r have 6: "\<exists>a b c.
      last (progress_html (run plain opened two_updates))
        = a @ ''SUCCESS: ITEM-1 updated'' @ b @ ''ERROR: ITEM-23 not found'' @ c"
    by blast
  from th r' have 7: "sublist (''SUCCESS: ITEM-1 updated'' @ ''<br>'' @ ''ERROR: ITEM-23 not found'')
      (last (progress_html (run plain opened two_updates)))"
    by blast
  from 0 1 2 3 4 5 6 7 show ?thesis
    by (intro conjI)
qed

section \<open>The claims about the Sales Order form script\<close>

text \<open>
  C5. A change of \<open>shopify_coupon_code\<close> to a non-empty value sends one request, the
  percent-value lookup of that code, and writes nothing by itself; the callback of the
  lookup writes the percent value of the message it received (\<open>0\<close> when the message has
  none) to \<open>additional_discount_percentage\<close>. A change to an empty value sends no request
  and sets \<open>additional_discount_percentage\<close> to zero.
\<close>

theorem coupon_code_lookup_and_clear:
  "(shopify_coupon_code frm = Some c \<and> c \<noteq> [] \<longrightarrow>
      on_shopify_coupon_code frm =
        (frm, [\<lparr>method = ''ecommerce_integrations.shopify.coupon.get_shopify_coupon_code_percent_value'',
                 args = [(''coupon_code'', c)], freeze = False\<rparr>])) \<and>
   percent_value_callback (Some m) frm' =
     frm'\<lparr>additional_discount_percentage := (case percent_value m of None \<Rightarrow> 0 | Some p \<Rightarrow> p)\<rparr> \<and>
   (shopify_coupon_code frm = None \<or> shopify_coupon_code frm = Some [] \<longrightarrow>
      on_shopify_coupon_code frm = (frm\<lparr>additional_discount_percentage := 0\<rparr>, []))"
  by (auto simp: on_shopify_coupon_code_def percent_value_callback_def str_or_def num_or_def
      get_shopify_coupon_code_percent_value_def split: option.split)

theorem coupon_code_lookup_and_clear_witness:
  "on_shopify_coupon_code save10 =
     (save10, [\<lparr>method = ''ecommerce_integrations.shopify.coupon.get_shopify_coupon_code_percent_value'',
                 args = [(''coupon_code'', ''SAVE10'')], freeze = False\<rparr>]) \<and>
   percent_value_callback (Some \<lparr>percent_value = Some 10\<rparr>) save10 =
     save10\<lparr>additional_discount_percentage := 10\<rparr> \<and>
   on_shopify_coupon_code cleared = (cleared\<lparr>additional_discount_percentage := 0\<rparr>, [])"
proof -
  have a: "shopify_coupon_code save10 = Some ''SAVE10'' \<and> ''SAVE10'' \<noteq> []"
    by (simp add: save10_def)
  have b: "shopify_coupon_code cleared = None \<or> shopify_coupon_code cleared = Some []"
    by (simp add: cleared_def)
  from coupon_code_lookup_and_clear [of save10 "''SAVE10''" "\<lparr>percent_value = Some 10\<rparr>" save10]
    coupon_code_lookup_and_clear [of cleared "[]" "\<lparr>percent_value = Some 10\<rparr>" save10] a b
  show ?thesis by simp
qed

text \<open>
  C8. The callback of the lookup leaves the form as it is when the response's message is
  falsy: \<open>additional_discount_percentage\<close> keeps its value and is not reset to zero. When
  the message is truthy the callback writes that one field, with the message's
  \<open>percent_value\<close>, or \<open>0\<close> when the message has none.
\<close>

theorem falsy_response_keeps_discount:
  "percent_value_callback None frm = frm \<and>
   percent_value_callback (Some m) frm =
     frm\<lparr>additional_discount_percentage := (case percent_value m of None \<Rightarrow> 0 | Some p \<Rightarrow> p)\<rparr>"
  by (simp add: percent_value_callback_def num_or_def split: option.split)

section \<open>The claim about the Shopify Coupon Code form script\<close>

text \<open>
  C6. The callback of Update Coupon reads the status of the response's message. A message
  with the status \<^verbatim>\<open>success\<close> is answered by the plain notice; every other response, a
  falsy message included, by a red message titled Error. Its text is the translated
  \<^verbatim>\<open>Failed to update coupons.\<close> exactly when the response has no non-empty error
  string, and is that error string otherwise.
\<close>

theorem update_callback_error_message:
  "((\<exists>m. r_message = Some m \<and> coupon_status m = Some ''success'') \<longrightarrow>
      update_callback r_message = Plain (Translated ''Coupon updated.'')) \<and>
   (\<not> (\<exists>m. r_message = Some m \<and> coupon_status m = Some ''success'') \<longrightarrow>
      (\<exists>txt. update_callback r_message = Titled (Translated ''Error'') txt ''red'' \<and>
         (txt = Translated ''Failed to update coupons.'' \<longleftrightarrow>
            \<not> (\<exists>m e. r_message = Some m \<and> coupon_error m = Some e \<and> e \<noteq> [])) \<and>
         (\<forall>m e. r_message = Some m \<and> coupon_error m = Some e \<and> e \<noteq> [] \<longrightarrow> txt = Raw e)))"
  by (cases r_message)
    (auto simp: update_callback_def is_success_def error_text_def split: option.split)

theorem update_callback_error_message_witness:
  "update_callback (Some updated) = Plain (Translated ''Coupon updated.'') \<and>
   update_callback (Some not_found) = Titled (Translated ''Error'') (Raw ''Coupon not found'') ''red'' \<and>
   update_callback None = Titled (Translated ''Error'') (Translated ''Failed to update coupons.'') ''red''"
proof -
  have a: "\<exists>m. Some updated = Some m \<and> coupon_status m = Some ''success''"
    by (simp add: updated_def)
  have b: "\<not> (\<exists>m. Some not_found = Some m \<and> coupon_status m = Some ''success'')"
    by (simp add: not_found_def)
  have c: "\<not> (\<exists>m. (None :: update_message option) = Some m \<and> coupon_status m = Some ''success'')"
    by simp
  have d: "coupon_error not_found = Some ''Coupon not found''"
    by (simp add: not_found_def)
  from update_callback_error_message [of "Some updated"] a
  have 1: "update_callback (Some updated) = Plain (Translated ''Coupon updated.'')"
    by blast
  from update_callback_error_message [of "Some not_found"] b d
  have 2: "update_callback (Some not_found)
      = Titled (Translated ''Error'') (Raw ''Coupon not found'') ''red''"
    by auto
  from update_callback_error_message [of None] c
  have 3: "update_callback None
      = Titled (Translated ''Error'') (Translated ''Failed to update coupons.'') ''red''"
    by auto
  from 1 2 3 show ?thesis by simp
qed

end
